theory Spec2Isabelle
  imports Main "HOL-Library.Finite_Map" "HOL-Library.Char_ord" "HOL-Library.List_Lexorder"
begin

section \<open>Results of Python code\<close>

text \<open>
  A call of the source either returns a value, raises an exception, or never returns
  (the recursion of \<open>walk_packages\<close> and the \<open>while 1\<close> loop of \<open>__sub__\<close> have no
  bound of their own). Functions that can recurse or loop take fuel: \<open>None\<close> is "the fuel
  ran out", \<open>Some (Inl e)\<close> is "raised e", \<open>Some (Inr x)\<close> is "returned x".
  \<open>ValueError\<close> is absent: the only place that can raise it catches it.
\<close>

datatype error = KeyError string | AttributeError string

type_synonym 'a res = "(error + 'a) option"

definition ok :: "'a \<Rightarrow> 'a res" where
  "ok x = Some (Inr x)"

definition raise :: "error \<Rightarrow> 'a res" where
  "raise e = Some (Inl e)"

definition bnd :: "'a res \<Rightarrow> ('a \<Rightarrow> 'b res) \<Rightarrow> 'b res" where
  "bnd m f = (case m of None \<Rightarrow> None | Some (Inl e) \<Rightarrow> Some (Inl e) | Some (Inr x) \<Rightarrow> f x)"

text \<open>A \<open>for\<close> loop over a list computed before the loop starts, stopping at the first raise.\<close>

primrec for_each :: "('a \<Rightarrow> 's \<Rightarrow> 's res) \<Rightarrow> 'a list \<Rightarrow> 's \<Rightarrow> 's res" where
  "for_each f [] s = ok s"
| "for_each f (x # xs) s = bnd (f x s) (for_each f xs)"

section \<open>The data model\<close>

text \<open>
  A dict with string keys is a finite map. \<open>sorted(d.iteritems())\<close> sorts the (key, value)
  pairs; keys are unique, so this is the order of the keys. A loop over \<open>d.iteritems()\<close>
  with no \<open>sorted\<close> visits the items in an order Python does not fix; the two loops of
  \<open>__sub__\<close> that do so only delete the key they visit, so they are run in key order here.
\<close>

definition sorted_items :: "(string, 'v) fmap \<Rightarrow> (string \<times> 'v) list" where
  "sorted_items d = map (\<lambda>k. (k, the (fmlookup d k))) (sorted_list_of_fset (fmdom d))"

text \<open>
  The versions of a package are a list when the blueprint was loaded from its JSON
  document and a set when \<open>add_package\<close> built it. A set carries the order in which
  Python happens to iterate it.
\<close>

datatype versions = VList "string list" | VSet "string list"

fun version_seq :: "versions \<Rightarrow> string list" where
  "version_seq (VList vs) = vs"
| "version_seq (VSet vs) = vs"

type_synonym filemeta = "(string, string) fmap"
type_synonym files_dict = "(string, filemeta) fmap"
type_synonym sources_dict = "(string, string) fmap"
type_synonym manager_dict = "(string, versions) fmap"

text \<open>
  The value under \<open>'packages'\<close> is a plain dict when loaded from JSON and a
  \<open>defaultdict\<close> when the accessor created it: \<open>d[k]\<close> on a missing key raises KeyError
  on the first and inserts an empty entry on the second.
\<close>

record packages_dict =
  defaulting :: bool
  pkg_items :: "(string, manager_dict) fmap"

record deps =
  dep_files :: "string list option"
  dep_packages :: "(string \<times> string list) list option"
  dep_sources :: "string list option"

type_synonym services_dict = "(string, (string, deps) fmap) fmap"

text \<open>
  \<open>Manager(name, mapping)\<close> (module \<open>manager\<close>): a manager's name bound to a copy of its
  package mapping.
\<close>

record manager =
  mgr_name :: string
  mgr_pkgs :: manager_dict

text \<open>
  A \<open>Blueprint\<close> is a dict with the optional keys arch, files, packages, services and
  sources (\<open>None\<close>: the key is absent) and the attribute \<open>_managers\<close>, absent until the
  \<open>managers\<close> property has run. The value of arch may be Python's None.
\<close>

record blueprint =
  key_arch :: "string option option"
  key_files :: "files_dict option"
  key_packages :: "packages_dict option"
  key_services :: "services_dict option"
  key_sources :: "sources_dict option"
  attr_managers :: "(string, manager option) fmap option"

definition Blueprint :: blueprint where
  "Blueprint = \<lparr> key_arch = None, key_files = None, key_packages = None,
     key_services = None, key_sources = None, attr_managers = None \<rparr>"

definition new_packages :: packages_dict where
  "new_packages = \<lparr> defaulting = True, pkg_items = fmempty \<rparr>"

subsection \<open>The accessors\<close>

text \<open>Each property inserts its default under the key when the key is absent, and returns
  the value under the key: the object after the call, and the value.\<close>

definition files :: "blueprint \<Rightarrow> blueprint \<times> files_dict" where
  "files self = (case key_files self of
     None \<Rightarrow> (self\<lparr>key_files := Some fmempty\<rparr>, fmempty)
   | Some d \<Rightarrow> (self, d))"

definition packages :: "blueprint \<Rightarrow> blueprint \<times> packages_dict" where
  "packages self = (case key_packages self of
     None \<Rightarrow> (self\<lparr>key_packages := Some new_packages\<rparr>, new_packages)
   | Some d \<Rightarrow> (self, d))"

definition services :: "blueprint \<Rightarrow> blueprint \<times> services_dict" where
  "services self = (case key_services self of
     None \<Rightarrow> (self\<lparr>key_services := Some fmempty\<rparr>, fmempty)
   | Some d \<Rightarrow> (self, d))"

definition sources :: "blueprint \<Rightarrow> blueprint \<times> sources_dict" where
  "sources self = (case key_sources self of
     None \<Rightarrow> (self\<lparr>key_sources := Some fmempty\<rparr>, fmempty)
   | Some d \<Rightarrow> (self, d))"

subsection \<open>The two operands of a binary operation\<close>

text \<open>
  \<open>A - B\<close> works on two objects, which are one object in \<open>A - A\<close>. The store holds both;
  a reference names one of them.
\<close>

datatype ref = RefA | RefB

type_synonym heap = "blueprint \<times> blueprint"

fun hget :: "heap \<Rightarrow> ref \<Rightarrow> blueprint" where
  "hget (a, b) RefA = a"
| "hget (a, b) RefB = b"

fun hput :: "heap \<Rightarrow> ref \<Rightarrow> blueprint \<Rightarrow> heap" where
  "hput (a, b) RefA x = (x, b)"
| "hput (a, b) RefB x = (a, x)"

definition at :: "(blueprint \<Rightarrow> blueprint \<times> 'v) \<Rightarrow> ref \<Rightarrow> heap \<Rightarrow> heap \<times> 'v" where
  "at prop r h = (case prop (hget h r) of (self', v) \<Rightarrow> (hput h r self', v))"

section \<open>Serialization\<close>

text \<open>
  \<open>dumps\<close> deletes keys from the object and hands the object to \<open>util.JSONEncoder\<close>
  (not part of the sources read here). The document is modelled as the mapping the
  encoder is given: its top-level keys are the keys of the object at that moment.
\<close>

definition dumps :: "blueprint \<Rightarrow> blueprint \<times> blueprint" where
  "dumps self =
    (let s1 = (if key_arch self = Some None then self\<lparr>key_arch := None\<rparr> else self);
         s2 = (case key_files s1 of
                 Some d \<Rightarrow> if fcard (fmdom d) = 0 then s1\<lparr>key_files := None\<rparr> else s1
               | None \<Rightarrow> s1);
         s3 = (case key_packages s2 of
                 Some d \<Rightarrow> if fcard (fmdom (pkg_items d)) = 0 then s2\<lparr>key_packages := None\<rparr> else s2
               | None \<Rightarrow> s2);
         s4 = (case key_sources s3 of
                 Some d \<Rightarrow> if fcard (fmdom d) = 0 then s3\<lparr>key_sources := None\<rparr> else s3
               | None \<Rightarrow> s3)
     in (s4, s4))"

text \<open>The top-level keys of a document, in the encoder's sorted order.\<close>

definition top_keys :: "blueprint \<Rightarrow> string list" where
  "top_keys d =
     (if key_arch d = None then [] else [''arch'']) @
     (if key_files d = None then [] else [''files'']) @
     (if key_packages d = None then [] else [''packages'']) @
     (if key_services d = None then [] else [''services'']) @
     (if key_sources d = None then [] else [''sources''])"

section \<open>The walk\<close>

text \<open>
  A callback is a function on the state it can reach: the store of the two blueprints
  and a value \<open>'x\<close> of its own (a log, or the blueprint under construction). The
  configuration holds the callbacks a caller passed; \<open>None\<close> is a key absent from
  \<open>kwargs\<close>, for which the source substitutes \<open>lambda *args: None\<close>. The service callbacks
  are left out: no caller modelled here passes one.
\<close>

type_synonym 'x st = "heap \<times> 'x"

record 'x callbacks =
  cb_before_sources :: "('x st \<Rightarrow> 'x st res) option"
  cb_source :: "(string \<Rightarrow> string \<Rightarrow> 'x st \<Rightarrow> 'x st res) option"
  cb_after_sources :: "('x st \<Rightarrow> 'x st res) option"
  cb_before_files :: "('x st \<Rightarrow> 'x st res) option"
  cb_file :: "(string \<Rightarrow> filemeta \<Rightarrow> 'x st \<Rightarrow> 'x st res) option"
  cb_after_files :: "('x st \<Rightarrow> 'x st res) option"
  cb_before_packages :: "(manager \<Rightarrow> 'x st \<Rightarrow> 'x st res) option"
  cb_package :: "(manager \<Rightarrow> string \<Rightarrow> string \<Rightarrow> 'x st \<Rightarrow> 'x st res) option"
  cb_after_packages :: "(manager \<Rightarrow> 'x st \<Rightarrow> 'x st res) option"

definition no_callbacks :: "'x callbacks" where
  "no_callbacks = \<lparr> cb_before_sources = None, cb_source = None, cb_after_sources = None,
     cb_before_files = None, cb_file = None, cb_after_files = None,
     cb_before_packages = None, cb_package = None, cb_after_packages = None \<rparr>"

definition call0 :: "('s \<Rightarrow> 's res) option \<Rightarrow> 's \<Rightarrow> 's res" where
  "call0 cb s = (case cb of None \<Rightarrow> ok s | Some f \<Rightarrow> f s)"

definition call1 :: "('a \<Rightarrow> 's \<Rightarrow> 's res) option \<Rightarrow> 'a \<Rightarrow> 's \<Rightarrow> 's res" where
  "call1 cb a s = (case cb of None \<Rightarrow> ok s | Some f \<Rightarrow> f a s)"

definition call2 :: "('a \<Rightarrow> 'b \<Rightarrow> 's \<Rightarrow> 's res) option \<Rightarrow> 'a \<Rightarrow> 'b \<Rightarrow> 's \<Rightarrow> 's res" where
  "call2 cb a b s = (case cb of None \<Rightarrow> ok s | Some f \<Rightarrow> f a b s)"

definition call3 ::
  "('a \<Rightarrow> 'b \<Rightarrow> 'c \<Rightarrow> 's \<Rightarrow> 's res) option \<Rightarrow> 'a \<Rightarrow> 'b \<Rightarrow> 'c \<Rightarrow> 's \<Rightarrow> 's res" where
  "call3 cb a b c s = (case cb of None \<Rightarrow> ok s | Some f \<Rightarrow> f a b c s)"

text \<open>
  \<open>walk_sources\<close>: the callback under \<open>'before_sources'\<close> is looked up and called on both
  sides of the loop; the key \<open>'after_sources'\<close> is never read. The third argument of the
  source callback (a closure over the stored blob) is left out.
\<close>

definition walk_sources :: "ref \<Rightarrow> 'x callbacks \<Rightarrow> 'x st \<Rightarrow> 'x st res" where
  "walk_sources self cfg s =
     bnd (call0 (cb_before_sources cfg) s) (\<lambda>(h1, x1).
       case at sources self h1 of (h2, d) \<Rightarrow>
         bnd (for_each (\<lambda>(dirname, filename). call2 (cb_source cfg) dirname filename)
                (sorted_items d) (h2, x1))
             (call0 (cb_before_sources cfg)))"

definition walk_files :: "ref \<Rightarrow> 'x callbacks \<Rightarrow> 'x st \<Rightarrow> 'x st res" where
  "walk_files self cfg s =
     bnd (call0 (cb_before_files cfg) s) (\<lambda>(h1, x1).
       case at files self h1 of (h2, d) \<Rightarrow>
         bnd (for_each (\<lambda>(pathname, f). call2 (cb_file cfg) pathname f)
                (sorted_items d) (h2, x1))
             (call0 (cb_after_files cfg)))"

text \<open>
  \<open>walk_packages\<close>, the loop over the packages of one manager: every version is handed to
  the package callback, then a package that is not the manager itself and is a key of
  \<open>self.packages\<close> is noted for the recursion.
\<close>

fun package_loop ::
  "ref \<Rightarrow> 'x callbacks \<Rightarrow> manager \<Rightarrow> (string \<times> versions) list \<Rightarrow> string list \<Rightarrow> 'x st
     \<Rightarrow> (string list \<times> 'x st) res" where
  "package_loop self cfg manager [] managers s = ok (managers, s)"
| "package_loop self cfg manager ((package, versions) # rest) managers s =
     bnd (for_each (call3 (cb_package cfg) manager package) (version_seq versions) s) (\<lambda>(h1, x1).
       if mgr_name manager \<noteq> package then
         (case at packages self h1 of (h2, pk) \<Rightarrow>
            package_loop self cfg manager rest
              (if package |\<in>| fmdom (pkg_items pk) then managers @ [package] else managers)
              (h2, x1))
       else package_loop self cfg manager rest managers (h1, x1))"

text \<open>
  \<open>walk_packages(managername=None, **kwargs)\<close>. Each call is one more frame of the
  recursion and takes one unit of fuel.
\<close>

fun walk_packages :: "nat \<Rightarrow> ref \<Rightarrow> 'x callbacks \<Rightarrow> string option \<Rightarrow> 'x st \<Rightarrow> 'x st res" where
  "walk_packages 0 self cfg managername s = None"
| "walk_packages (Suc n) self cfg None s =
     bnd (walk_packages n self cfg (Some ''apt'') s) (\<lambda>s1.
       walk_packages n self cfg (Some ''yum'') s1)"
| "walk_packages (Suc n) self cfg (Some managername) s =
     (case at packages self (fst s) of (h1, pk) \<Rightarrow>
        let manager = \<lparr> mgr_name = managername,
              mgr_pkgs = (case fmlookup (pkg_items pk) managername of
                            None \<Rightarrow> fmempty | Some d \<Rightarrow> d) \<rparr>
        in bnd (call1 (cb_before_packages cfg) manager (h1, snd s)) (\<lambda>s1.
           bnd (package_loop self cfg manager (sorted_items (mgr_pkgs manager)) [] s1)
             (\<lambda>(managers, s2).
           bnd (call1 (cb_after_packages cfg) manager s2) (\<lambda>s3.
           for_each (\<lambda>m s4. walk_packages n self cfg (Some m) s4) managers s3))))"

text \<open>
  \<open>walk_services\<close> with no service callback: the loops read \<open>self.services\<close> (which
  creates the key) and call the default \<open>lambda *args: None\<close> at each entry.
\<close>

definition walk_services :: "ref \<Rightarrow> 'x callbacks \<Rightarrow> 'x st \<Rightarrow> 'x st res" where
  "walk_services self cfg s = (case at services self (fst s) of (h1, d) \<Rightarrow> ok (h1, snd s))"

definition walk :: "nat \<Rightarrow> ref \<Rightarrow> 'x callbacks \<Rightarrow> 'x st \<Rightarrow> 'x st res" where
  "walk n self cfg s =
     bnd (walk_sources self cfg s) (\<lambda>s1.
     bnd (walk_files self cfg s1) (\<lambda>s2.
     bnd (walk_packages n self cfg None s2) (\<lambda>s3.
     walk_services self cfg s3)))"

section \<open>The manager hierarchy\<close>

text \<open>
  Modelled from the spec: class \<open>Manager\<close> is not among the sources. The spec has it give
  "an object identity distinct from a bare name/mapping pair", so the comparison
  \<open>manager != package\<close> of a Manager with a string holds.
\<close>

definition manager_ne_str :: "manager \<Rightarrow> string \<Rightarrow> bool" where
  "manager_ne_str manager package = True"

definition managers_package :: "ref \<Rightarrow> manager \<Rightarrow> string \<Rightarrow> string \<Rightarrow> 'x st \<Rightarrow> 'x st res" where
  "managers_package self manager package version s =
     (case at packages self (fst s) of (h1, pk) \<Rightarrow>
        if package |\<in>| fmdom (pkg_items pk) \<and> manager_ne_str manager package then
          (case attr_managers (hget h1 self) of
             None \<Rightarrow> raise (AttributeError ''_managers'')
           | Some m \<Rightarrow>
               ok (hput h1 self ((hget h1 self)\<lparr>attr_managers := Some (fmupd package (Some manager) m)\<rparr>),
                   snd s))
        else ok (h1, snd s))"

definition managers :: "nat \<Rightarrow> ref \<Rightarrow> heap \<Rightarrow> (heap \<times> (string, manager option) fmap) res" where
  "managers n self h =
     (case attr_managers (hget h self) of
        Some m \<Rightarrow> ok (h, m)
      | None \<Rightarrow>
          let h1 = hput h self ((hget h self)\<lparr>attr_managers :=
                     Some (fmupd ''yum'' None (fmupd ''apt'' None fmempty))\<rparr>)
          in bnd (walk n self (no_callbacks\<lparr>cb_package := Some (managers_package self)\<rparr>) (h1, ()))
               (\<lambda>(h2, u). case attr_managers (hget h2 self) of
                    None \<Rightarrow> raise (AttributeError ''_managers'')
                  | Some m \<Rightarrow> ok (h2, m)))"

section \<open>Subtraction\<close>

text \<open>\<open>b.packages[name]\<close>: the entry, a KeyError on a plain dict that lacks it, a fresh
  empty entry on a defaultdict that lacks it.\<close>

definition packages_getitem :: "blueprint \<Rightarrow> string \<Rightarrow> (blueprint \<times> manager_dict) res" where
  "packages_getitem b name =
     (case packages b of (b1, pk) \<Rightarrow>
        case fmlookup (pkg_items pk) name of
          Some d \<Rightarrow> ok (b1, d)
        | None \<Rightarrow>
            if defaulting pk
            then ok (b1\<lparr>key_packages := Some (pk\<lparr>pkg_items := fmupd name fmempty (pkg_items pk)\<rparr>)\<rparr>,
                     fmempty)
            else raise (KeyError name))"

text \<open>A change made through the reference \<open>b.packages[name]\<close>, written back into \<open>b\<close>.\<close>

definition set_manager_dict :: "blueprint \<Rightarrow> string \<Rightarrow> manager_dict \<Rightarrow> blueprint" where
  "set_manager_dict b name d =
     (case packages b of (b1, pk) \<Rightarrow>
        b1\<lparr>key_packages := Some (pk\<lparr>pkg_items := fmupd name d (pkg_items pk)\<rparr>)\<rparr>)"

text \<open>The files loop: \<open>if other.files.get(pathname, {}) == file: del b.files[pathname]\<close>.\<close>

definition sub_file :: "ref \<Rightarrow> string \<times> filemeta \<Rightarrow> blueprint st \<Rightarrow> blueprint st res" where
  "sub_file other item s =
     (case item of (pathname, file) \<Rightarrow> case s of (h, b) \<Rightarrow>
      case at files other h of (h1, od) \<Rightarrow>
        if (case fmlookup od pathname of None \<Rightarrow> fmempty | Some f \<Rightarrow> f) = file then
          (case files b of (b1, bd) \<Rightarrow>
             if pathname |\<in>| fmdom bd
             then ok (h1, b1\<lparr>key_files := Some (fmdrop pathname bd)\<rparr>)
             else raise (KeyError pathname))
        else ok (h1, b))"

text \<open>The sources loop: \<open>if other.sources.get(dirname, '') == filename: del b.sources[dirname]\<close>.\<close>

definition sub_source :: "ref \<Rightarrow> string \<times> string \<Rightarrow> blueprint st \<Rightarrow> blueprint st res" where
  "sub_source other item s =
     (case item of (dirname, filename) \<Rightarrow> case s of (h, b) \<Rightarrow>
      case at sources other h of (h1, od) \<Rightarrow>
        if (case fmlookup od dirname of None \<Rightarrow> [] | Some f \<Rightarrow> f) = filename then
          (case sources b of (b1, bd) \<Rightarrow>
             if dirname |\<in>| fmdom bd
             then ok (h1, b1\<lparr>key_sources := Some (fmdrop dirname bd)\<rparr>)
             else raise (KeyError dirname))
        else ok (h1, b))"

text \<open>The package callback of the first pass. \<open>b_versions.index\<close> exists on a list only;
  \<open>del b_versions[b_versions.index(version)]\<close> removes the first occurrence, and a
  version that does not occur (ValueError) is passed over.\<close>

definition sub_package1 :: "manager \<Rightarrow> string \<Rightarrow> string \<Rightarrow> blueprint st \<Rightarrow> blueprint st res" where
  "sub_package1 manager package version s =
     (case s of (h, b) \<Rightarrow> case packages b of (b1, pk) \<Rightarrow>
      if package |\<in>| fmdom (pkg_items pk) then ok (h, b1)
      else if mgr_name manager |\<in>|
                fmdom (case fmlookup (pkg_items pk) (mgr_name manager) of
                         None \<Rightarrow> fmempty | Some d \<Rightarrow> d)
        then ok (h, b1)
      else bnd (packages_getitem b1 (mgr_name manager)) (\<lambda>(b2, b_packages).
        case fmlookup b_packages package of
          None \<Rightarrow> ok (h, b2)
        | Some (VSet vs) \<Rightarrow> raise (AttributeError ''index'')
        | Some (VList b_versions) \<Rightarrow>
            let b_versions' = remove1 version b_versions in
            if length b_versions' = 0
            then ok (h, set_manager_dict b2 (mgr_name manager) (fmdrop package b_packages))
            else ok (h, set_manager_dict b2 (mgr_name manager)
                          (fmupd package (VList b_versions') b_packages))))"

text \<open>The package callback of the second pass.\<close>

definition sub_package2 ::
  "nat \<Rightarrow> ref \<Rightarrow> manager \<Rightarrow> string \<Rightarrow> string \<Rightarrow> blueprint st \<Rightarrow> blueprint st res" where
  "sub_package2 n self manager package version s =
     (case s of (h, b) \<Rightarrow> case packages b of (b1, pk) \<Rightarrow>
      case fmlookup (pkg_items pk) package of
        None \<Rightarrow> ok (h, b1)
      | Some d \<Rightarrow>
          if fcard (fmdom d) = 0 then
            let b2 = b1\<lparr>key_packages := Some (pk\<lparr>pkg_items := fmdrop package (pkg_items pk)\<rparr>)\<rparr>
            in bnd (managers n self h) (\<lambda>(h1, ms).
                 case fmlookup ms package of
                   None \<Rightarrow> raise (KeyError package)
                 | Some None \<Rightarrow> raise (AttributeError ''name'')
                 | Some (Some parent) \<Rightarrow>
                     bnd (packages_getitem b2 (mgr_name parent)) (\<lambda>(b3, pd).
                       if package |\<in>| fmdom pd
                       then ok (h1, set_manager_dict b3 (mgr_name parent) (fmdrop package pd))
                       else raise (KeyError package)))
          else ok (h, b1))"

text \<open>The \<open>while 1\<close> loop of the second pass; each round takes one unit of the loop's fuel.\<close>

fun sub_pass2 :: "nat \<Rightarrow> nat \<Rightarrow> ref \<Rightarrow> ref \<Rightarrow> blueprint st \<Rightarrow> blueprint st res" where
  "sub_pass2 0 n self other s = None"
| "sub_pass2 (Suc k) n self other s =
     (case packages (snd s) of (b1, pk) \<Rightarrow>
        let l = fcard (fmdom (pkg_items pk)) in
        bnd (walk n other (no_callbacks\<lparr>cb_package := Some (sub_package2 n self)\<rparr>) (fst s, b1))
          (\<lambda>(h2, b2). case packages b2 of (b3, pk3) \<Rightarrow>
             if fcard (fmdom (pkg_items pk3)) = l then ok (h2, b3)
             else sub_pass2 k n self other (h2, b3)))"

subsection \<open>The patterns of the third pass\<close>

text \<open>
  \<open>re.search\<close> with a pattern \<open>^...$\<close>: the match starts at the first character, \<open>\d\<close> is
  an ASCII digit, and \<open>$\<close> matches at the end of the string and before a newline that
  ends it. The functions return group 1.
\<close>

definition is_digit :: "char \<Rightarrow> bool" where
  "is_digit c = (c \<in> set ''0123456789'')"

definition at_end :: "string \<Rightarrow> bool" where
  "at_end s = (s = [] \<or> s = [CHR 0x0A])"

fun strip_prefix :: "string \<Rightarrow> string \<Rightarrow> string option" where
  "strip_prefix [] s = Some s"
| "strip_prefix (p # ps) [] = None"
| "strip_prefix (p # ps) (c # cs) = (if p = c then strip_prefix ps cs else None)"

text \<open>\<open>(\d+(?:\.\d+)?)$\<close>\<close>

definition match_num :: "string \<Rightarrow> string option" where
  "match_num s =
     (let d1 = takeWhile is_digit s; r1 = dropWhile is_digit s in
      if d1 = [] then None
      else if at_end r1 then Some d1
      else (case r1 of
              [] \<Rightarrow> None
            | c # r2 \<Rightarrow>
                let d2 = takeWhile is_digit r2; r3 = dropWhile is_digit r2 in
                if c = CHR ''.'' \<and> d2 \<noteq> [] \<and> at_end r3 then Some (d1 @ ''.'' @ d2) else None))"

text \<open>\<open>(\d+\.\d+(?:\.\d+)?)$\<close>\<close>

definition match_num_dotted :: "string \<Rightarrow> string option" where
  "match_num_dotted s =
     (let d1 = takeWhile is_digit s; r1 = dropWhile is_digit s in
      if d1 = [] then None
      else (case r1 of
              [] \<Rightarrow> None
            | c # r2 \<Rightarrow>
                if c = CHR ''.'' then
                  (case match_num r2 of None \<Rightarrow> None | Some g \<Rightarrow> Some (d1 @ ''.'' @ g))
                else None))"

datatype piece = Lit string | Group

fun format_name :: "piece list \<Rightarrow> string \<Rightarrow> string" where
  "format_name [] g = []"
| "format_name (Lit s # ps) g = s @ format_name ps g"
| "format_name (Group # ps) g = g @ format_name ps g"

text \<open>The dict \<open>deps\<close>. A name matches at most one of its three patterns, so the order in
  which Python iterates the dict does not show.\<close>

definition deps_table :: "((string \<Rightarrow> string option) \<times> piece list list) list" where
  "deps_table =
     [(\<lambda>name. case strip_prefix ''python'' name of None \<Rightarrow> None | Some r \<Rightarrow> match_num r,
       [[Lit ''python'', Group], [Lit ''python'', Group, Lit ''-dev''],
        [Lit ''python''], [Lit ''python-devel'']]),
      (\<lambda>name. case strip_prefix ''ruby'' name of None \<Rightarrow> None | Some r \<Rightarrow> match_num_dotted r,
       [[Lit ''ruby'', Group, Lit ''-dev'']]),
      (\<lambda>name. case strip_prefix ''rubygems'' name of None \<Rightarrow> None | Some r \<Rightarrow> match_num_dotted r,
       [[Lit ''ruby'', Group], [Lit ''ruby'', Group, Lit ''-dev''],
        [Lit ''ruby''], [Lit ''ruby-devel'']])]"

text \<open>The body of the innermost loop of \<open>after_packages\<close>.\<close>

definition readd :: "ref \<Rightarrow> string \<Rightarrow> string \<Rightarrow> blueprint st \<Rightarrow> blueprint st res" where
  "readd self package managername s =
     (case s of (h, b) \<Rightarrow> case at packages self h of (h1, pk) \<Rightarrow>
        case (case fmlookup (pkg_items pk) managername of
                None \<Rightarrow> None | Some d \<Rightarrow> fmlookup d package) of
          None \<Rightarrow> ok (h1, b)
        | Some mine \<Rightarrow>
            bnd (packages_getitem b managername) (\<lambda>(b1, d).
              ok (h1, set_manager_dict b1 managername (fmupd package mine d))))"

definition sub_after_packages :: "ref \<Rightarrow> manager \<Rightarrow> blueprint st \<Rightarrow> blueprint st res" where
  "sub_after_packages self manager s =
     (case s of (h, b) \<Rightarrow> case packages b of (b1, pk) \<Rightarrow>
        if mgr_name manager |\<notin>| fmdom (pkg_items pk) then ok (h, b1)
        else for_each (\<lambda>(pattern, pkgs) s1.
               case pattern (mgr_name manager) of
                 None \<Rightarrow> ok s1
               | Some g \<Rightarrow>
                   for_each (\<lambda>template. for_each (readd self (format_name template g)) [''apt'', ''yum''])
                     pkgs s1)
             deps_table (h, b1))"

text \<open>
  \<open>__sub__\<close>. \<open>copy.deepcopy(self)\<close> is the value of \<open>self\<close> at that moment. The result is
  the store after the call and the new blueprint.
\<close>

definition sub :: "nat \<Rightarrow> ref \<Rightarrow> ref \<Rightarrow> heap \<Rightarrow> (heap \<times> blueprint) res" where
  "sub n self other h =
     (let b = hget h self in
      case at files self h of (h1, fd) \<Rightarrow>
      bnd (for_each (sub_file other) (sorted_items fd) (h1, b)) (\<lambda>s1.
      bnd (walk n other (no_callbacks\<lparr>cb_package := Some sub_package1\<rparr>) s1) (\<lambda>s2.
      bnd (sub_pass2 n n self other s2) (\<lambda>s3.
      bnd (walk n other (no_callbacks\<lparr>cb_after_packages := Some (sub_after_packages self)\<rparr>) s3)
        (\<lambda>(h4, b4).
      case at sources self h4 of (h5, sd) \<Rightarrow>
      for_each (sub_source other) (sorted_items sd) (h5, b4))))))"

section \<open>Observing a walk\<close>

text \<open>A caller that passes every callback and lets each one append what it was called
  with to a log.\<close>

datatype event =
    EvBeforeSources | EvSource string string | EvAfterSources
  | EvBeforeFiles | EvFile string | EvAfterFiles
  | EvBeforePackages string | EvPackage string string string | EvAfterPackages string

definition emit :: "event \<Rightarrow> event list st \<Rightarrow> event list st res" where
  "emit e s = ok (fst s, snd s @ [e])"

definition recording :: "event list callbacks" where
  "recording = \<lparr>
     cb_before_sources = Some (emit EvBeforeSources),
     cb_source = Some (\<lambda>dirname filename. emit (EvSource dirname filename)),
     cb_after_sources = Some (emit EvAfterSources),
     cb_before_files = Some (emit EvBeforeFiles),
     cb_file = Some (\<lambda>pathname f. emit (EvFile pathname)),
     cb_after_files = Some (emit EvAfterFiles),
     cb_before_packages = Some (\<lambda>m. emit (EvBeforePackages (mgr_name m))),
     cb_package = Some (\<lambda>m package version. emit (EvPackage (mgr_name m) package version)),
     cb_after_packages = Some (\<lambda>m. emit (EvAfterPackages (mgr_name m))) \<rparr>"

section \<open>Blueprints used as examples\<close>

text \<open>The blueprint whose only content is the package curl of the manager apt.\<close>

definition curl_only :: "bool \<Rightarrow> versions \<Rightarrow> blueprint" where
  "curl_only dflt vs = Blueprint\<lparr>key_packages :=
     Some \<lparr> defaulting = dflt, pkg_items = fmupd ''apt'' (fmupd ''curl'' vs fmempty) fmempty \<rparr>\<rparr>"

text \<open>A manager hierarchy with a cycle: apt lists gem, and gem lists apt.\<close>

definition cyclic :: blueprint where
  "cyclic = Blueprint\<lparr>key_packages := Some \<lparr> defaulting = False,
     pkg_items = fmupd ''gem'' (fmupd ''apt'' (VList [''1'']) fmempty)
                  (fmupd ''apt'' (fmupd ''gem'' (VList [''1'']) fmempty) fmempty) \<rparr>\<rparr>"

text \<open>A hierarchy of two levels: apt lists gem, and gem lists rake.\<close>

definition gems :: blueprint where
  "gems = Blueprint\<lparr>key_packages := Some \<lparr> defaulting = False,
     pkg_items = fmupd ''gem'' (fmupd ''rake'' (VList [''1'']) fmempty)
                  (fmupd ''apt'' (fmupd ''gem'' (VList [''1'']) fmempty) fmempty) \<rparr>\<rparr>"

section \<open>What a package walk visits\<close>

text \<open>
  The (package, versions) items of manager \<open>m\<close> in the order of the walk, the managers
  it hosts (the edges of the manager hierarchy), and the package events of a visit.
\<close>

definition manager_items :: "heap \<Rightarrow> ref \<Rightarrow> string \<Rightarrow> (string \<times> versions) list" where
  "manager_items h self m =
     sorted_items (case fmlookup (pkg_items (snd (packages (hget h self)))) m of
                     None \<Rightarrow> fmempty | Some d \<Rightarrow> d)"

definition hosted :: "heap \<Rightarrow> ref \<Rightarrow> string \<Rightarrow> string list" where
  "hosted h self m =
     filter (\<lambda>p. p \<noteq> m \<and> p |\<in>| fmdom (pkg_items (snd (packages (hget h self)))))
       (map fst (manager_items h self m))"

definition package_events :: "string \<Rightarrow> (string \<times> versions) list \<Rightarrow> event list" where
  "package_events m items = concat (map (\<lambda>(p, vs). map (EvPackage m p) (version_seq vs)) items)"

section \<open>Basic facts\<close>

lemma bnd_ok [simp]: "bnd (ok x) f = f x"
  by (simp add: bnd_def ok_def)

lemma bnd_raise [simp]: "bnd (raise e) f = raise e"
  by (simp add: bnd_def raise_def)

lemma bnd_None [simp]: "bnd None f = None"
  by (simp add: bnd_def)

lemma fmdom_is_empty: "fmdom d = {||} \<longleftrightarrow> d = fmempty"
proof
  assume e: "fmdom d = {||}"
  show "d = fmempty"
  proof (rule fmap_ext)
    fix k
    have "k |\<notin>| fmdom d" using e by simp
    then show "fmlookup d k = fmlookup fmempty k" by (simp add: fmdom_notD)
  qed
qed simp

declare walk_packages.simps [simp del]

lemma hget_hput [simp]: "hget (hput h r x) r' = (if r = r' then x else hget h r')"
  by (cases h; cases r; cases r') simp_all

lemma hput_hget [simp]: "hput h r (hget h r) = h"
  by (cases h; cases r) simp_all

lemma hput_hput [simp]: "hput (hput h r x) r y = hput h r y"
  by (cases h; cases r) simp_all

lemma packages_idem [simp]: "packages (fst (packages b)) = (fst (packages b), snd (packages b))"
  by (simp add: packages_def split: option.splits)

lemma at_packages_idem [simp]:
  "at packages self (fst (at packages self h)) = at packages self h"
  by (simp add: at_def split: prod.splits) (metis fst_conv packages_idem snd_conv hput_hput)

lemma at_packages_snd [simp]: "snd (at packages self h) = snd (packages (hget h self))"
  by (simp add: at_def split: prod.splits)

lemma hget_at_packages [simp]:
  "hget (fst (at packages self h)) self = fst (packages (hget h self))"
  by (simp add: at_def split: prod.splits)

lemma ok_eq [simp]: "ok x = ok y \<longleftrightarrow> x = y"
  by (simp add: ok_def)

lemma ok_not_None [simp]: "ok x \<noteq> None" "None \<noteq> ok x"
  by (simp_all add: ok_def)

lemma ok_eq_Some [simp]: "ok x = Some r \<longleftrightarrow> r = Inr x" "Some r = ok x \<longleftrightarrow> r = Inr x"
  by (auto simp: ok_def)

lemma raise_eq_Some [simp]: "raise e = Some r \<longleftrightarrow> r = Inl e" "Some r = raise e \<longleftrightarrow> r = Inl e"
  by (auto simp: raise_def)

lemma sorted_items_keys: "map fst (sorted_items d) = sorted_list_of_fset (fmdom d)"
  by (simp add: sorted_items_def comp_def)

lemma sorted_items_sorted: "sorted (map fst (sorted_items d))"
  by (simp add: sorted_items_keys sorted_list_of_fset.rep_eq)

lemma sorted_items_distinct: "distinct (map fst (sorted_items d))"
  by (simp add: sorted_items_keys sorted_list_of_fset.rep_eq)

lemma sorted_items_set: "(k, v) \<in> set (sorted_items d) \<longleftrightarrow> fmlookup d k = Some v"
  by (auto simp: sorted_items_def fmlookup_dom_iff)

lemma sorted_items_empty [simp]: "sorted_items fmempty = []"
  by (simp add: sorted_items_def sorted_list_of_fset.rep_eq)

section \<open>walk_sources: the callbacks around the loop\<close>

lemma for_each_emit:
  "for_each (\<lambda>x. emit (f x)) xs (h, log) = ok (h, log @ map f xs)"
  by (induction xs arbitrary: log) (simp_all add: emit_def)

lemma walk_sources_recording:
  "walk_sources self recording (h, log) =
     (case at sources self h of (h', d) \<Rightarrow>
        ok (h', log @ [EvBeforeSources]
                 @ map (\<lambda>(dirname, filename). EvSource dirname filename) (sorted_items d)
                 @ [EvBeforeSources]))"
proof -
  have e: "(\<lambda>(dirname, filename). call2 (cb_source recording) dirname filename)
         = (\<lambda>x. emit ((\<lambda>(dirname, filename). EvSource dirname filename) x))"
    by (auto simp: call2_def recording_def fun_eq_iff)
  show ?thesis
    unfolding walk_sources_def e
    by (simp add: call0_def recording_def emit_def for_each_emit split: prod.splits)
qed

text \<open>
  C5. A caller passes before_sources, source and after_sources and walks a blueprint with
  the one source tarball /usr/local \<mapsto> a.tar. The claim has before_sources called once,
  then source, then after_sources called once. The code calls before_sources, then source,
  then before_sources a second time, and never calls after_sources.
\<close>

theorem walk_sources_calls_before_twice:
  "walk_sources RefA recording
     ((Blueprint\<lparr>key_sources := Some (fmupd ''/usr/local'' ''a.tar'' fmempty)\<rparr>, Blueprint), [])
   = ok ((Blueprint\<lparr>key_sources := Some (fmupd ''/usr/local'' ''a.tar'' fmempty)\<rparr>, Blueprint),
         [EvBeforeSources, EvSource ''/usr/local'' ''a.tar'', EvBeforeSources])"
  by code_simp

section \<open>dumps\<close>

text \<open>
  C9. A blueprint whose only key is services, holding an empty container (what the
  \<open>services\<close> accessor leaves behind), is serialized with that key: \<open>dumps\<close> deletes
  empty files, packages and sources, and has no case for services.
\<close>

theorem dumps_keeps_empty_services:
  "top_keys (snd (dumps (Blueprint\<lparr>key_services := Some fmempty\<rparr>))) = [''services'']"
  by code_simp

text \<open>
  C10. \<open>dumps\<close> changes its receiver: a null arch entry and an empty files, packages or
  sources entry is deleted from the object itself, so that afterwards the object holds
  none of them; the other keys and a non-empty entry stay as they were.
\<close>

theorem dumps_deletes_from_receiver:
  "(key_arch self = Some None \<longrightarrow> key_arch (fst (dumps self)) = None) \<and>
   (key_files self = Some fmempty \<longrightarrow> key_files (fst (dumps self)) = None) \<and>
   (key_packages self = Some p \<and> pkg_items p = fmempty \<longrightarrow> key_packages (fst (dumps self)) = None) \<and>
   (key_sources self = Some fmempty \<longrightarrow> key_sources (fst (dumps self)) = None) \<and>
   key_arch (fst (dumps self)) \<noteq> Some None \<and>
   key_files (fst (dumps self)) \<noteq> Some fmempty \<and>
   (\<forall>q. key_packages (fst (dumps self)) = Some q \<longrightarrow> pkg_items q \<noteq> fmempty) \<and>
   key_sources (fst (dumps self)) \<noteq> Some fmempty \<and>
   key_services (fst (dumps self)) = key_services self \<and>
   (key_arch self \<noteq> Some None \<longrightarrow> key_arch (fst (dumps self)) = key_arch self) \<and>
   (key_files self \<noteq> Some fmempty \<longrightarrow> key_files (fst (dumps self)) = key_files self) \<and>
   (key_sources self \<noteq> Some fmempty \<longrightarrow> key_sources (fst (dumps self)) = key_sources self)"
  by (auto simp: dumps_def Let_def fmdom_is_empty split: option.splits)

theorem dumps_deletes_from_receiver_witness:
  "key_arch (fst (dumps \<lparr> key_arch = Some None, key_files = Some fmempty,
       key_packages = Some new_packages, key_services = Some fmempty,
       key_sources = Some fmempty, attr_managers = None \<rparr>)) = None
   \<and> key_files (fst (dumps \<lparr> key_arch = Some None, key_files = Some fmempty,
       key_packages = Some new_packages, key_services = Some fmempty,
       key_sources = Some fmempty, attr_managers = None \<rparr>)) = None
   \<and> key_packages (fst (dumps \<lparr> key_arch = Some None, key_files = Some fmempty,
       key_packages = Some new_packages, key_services = Some fmempty,
       key_sources = Some fmempty, attr_managers = None \<rparr>)) = None
   \<and> key_sources (fst (dumps \<lparr> key_arch = Some None, key_files = Some fmempty,
       key_packages = Some new_packages, key_services = Some fmempty,
       key_sources = Some fmempty, attr_managers = None \<rparr>)) = None
   \<and> key_services (fst (dumps \<lparr> key_arch = Some None, key_files = Some fmempty,
       key_packages = Some new_packages, key_services = Some fmempty,
       key_sources = Some fmempty, attr_managers = None \<rparr>)) = Some fmempty"
  using dumps_deletes_from_receiver [of "\<lparr> key_arch = Some None, key_files = Some fmempty,
       key_packages = Some new_packages, key_services = Some fmempty,
       key_sources = Some fmempty, attr_managers = None \<rparr>" new_packages]
  by (simp add: new_packages_def)

section \<open>Subtraction, first pass\<close>

text \<open>
  C1, as stated, fails. The triple (apt, gem, 1) is walked while the result lists gem
  both as a package of apt and as a manager key: the package is not a manager key absent
  from the result and is not named like the manager, so the claim has the version removed;
  the code skips the triple. With gem no manager key of the result the code removes the
  version and, the list being empty, the package key.
\<close>

theorem sub_package1_skips_present_manager:
  "sub_package1 \<lparr> mgr_name = ''apt'', mgr_pkgs = fmupd ''gem'' (VList [''1'']) fmempty \<rparr> ''gem'' ''1''
     ((Blueprint, Blueprint), Blueprint\<lparr>key_packages := Some \<lparr> defaulting = False,
          pkg_items = fmupd ''gem'' (fmupd ''x'' (VList [''1'']) fmempty)
                       (fmupd ''apt'' (fmupd ''gem'' (VList [''1'']) fmempty) fmempty) \<rparr>\<rparr>)
   = ok ((Blueprint, Blueprint), Blueprint\<lparr>key_packages := Some \<lparr> defaulting = False,
          pkg_items = fmupd ''gem'' (fmupd ''x'' (VList [''1'']) fmempty)
                       (fmupd ''apt'' (fmupd ''gem'' (VList [''1'']) fmempty) fmempty) \<rparr>\<rparr>)
   \<and> sub_package1 \<lparr> mgr_name = ''apt'', mgr_pkgs = fmupd ''gem'' (VList [''1'']) fmempty \<rparr> ''gem'' ''1''
     ((Blueprint, Blueprint), Blueprint\<lparr>key_packages := Some \<lparr> defaulting = False,
          pkg_items = fmupd ''apt'' (fmupd ''gem'' (VList [''1'']) fmempty) fmempty \<rparr>\<rparr>)
   = ok ((Blueprint, Blueprint), Blueprint\<lparr>key_packages := Some \<lparr> defaulting = False,
          pkg_items = fmupd ''apt'' fmempty fmempty \<rparr>\<rparr>)"
  by code_simp

text \<open>
  C1, amended. For a triple (manager, package, version) walked from B, where the result
  lists the package under the manager with a list of versions: the triple is skipped when
  the package is a manager key present in the result, and when the manager's own name is
  a package key of the result's mapping for that manager; otherwise the first occurrence
  of the version is removed from the list at [manager][package], and when no version is
  left the package key is deleted. Nothing else of the result changes.
\<close>

theorem sub_package1_removes_version:
  assumes "key_packages b = Some pk"
    and "fmlookup (pkg_items pk) (mgr_name m) = Some d"
    and "fmlookup d p = Some (VList vs)"
  shows "sub_package1 m p v (h, b) = ok (h,
     if p |\<in>| fmdom (pkg_items pk) \<or> mgr_name m |\<in>| fmdom d then b
     else if remove1 v vs = []
       then b\<lparr>key_packages := Some (pk\<lparr>pkg_items := fmupd (mgr_name m) (fmdrop p d) (pkg_items pk)\<rparr>)\<rparr>
       else b\<lparr>key_packages := Some (pk\<lparr>pkg_items :=
              fmupd (mgr_name m) (fmupd p (VList (remove1 v vs)) d) (pkg_items pk)\<rparr>)\<rparr>)"
  using assms
  by (simp add: sub_package1_def packages_def packages_getitem_def set_manager_dict_def Let_def)

theorem sub_package1_removes_version_witness:
  "sub_package1 \<lparr> mgr_name = ''apt'', mgr_pkgs = fmempty \<rparr> ''curl'' ''7.1''
      ((Blueprint, Blueprint), curl_only False (VList [''7.1'', ''7.2'']))
    = ok ((Blueprint, Blueprint), curl_only False (VList [''7.2'']))
   \<and> sub_package1 \<lparr> mgr_name = ''apt'', mgr_pkgs = fmempty \<rparr> ''curl'' ''7.1''
      ((Blueprint, Blueprint), curl_only False (VList [''7.1'']))
    = ok ((Blueprint, Blueprint), Blueprint\<lparr>key_packages :=
            Some \<lparr> defaulting = False, pkg_items = fmupd ''apt'' fmempty fmempty \<rparr>\<rparr>)"
  using sub_package1_removes_version [of "curl_only False (VList [''7.1'', ''7.2''])"
      "\<lparr> defaulting = False, pkg_items = fmupd ''apt'' (fmupd ''curl'' (VList [''7.1'', ''7.2'']) fmempty) fmempty \<rparr>"
      "\<lparr> mgr_name = ''apt'', mgr_pkgs = fmempty \<rparr>"
      "fmupd ''curl'' (VList [''7.1'', ''7.2'']) fmempty" "''curl''" "[''7.1'', ''7.2'']" "''7.1''"
      "(Blueprint, Blueprint)"]
    sub_package1_removes_version [of "curl_only False (VList [''7.1''])"
      "\<lparr> defaulting = False, pkg_items = fmupd ''apt'' (fmupd ''curl'' (VList [''7.1'']) fmempty) fmempty \<rparr>"
      "\<lparr> mgr_name = ''apt'', mgr_pkgs = fmempty \<rparr>"
      "fmupd ''curl'' (VList [''7.1'']) fmempty" "''curl''" "[''7.1'']" "''7.1''"
      "(Blueprint, Blueprint)"]
  by (simp add: curl_only_def Blueprint_def fmdrop_fmupd_same)

section \<open>The scenario A - A\<close>

text \<open>
  C4, as stated, fails. A holds only curl 7.1 under apt. Loaded from its document (the
  versions a list), A - A keeps the manager apt with no package left, so the packages
  container is not empty and \<open>dumps\<close> keeps the key. Built by \<open>add_package\<close> (the
  versions a set), the first pass raises AttributeError: a set has no \<open>index\<close>.
\<close>

theorem sub_self_keeps_packages_key:
  "map_option (map_sum id (\<lambda>r. top_keys (snd (dumps (snd r)))))
     (sub 3 RefA RefA (curl_only False (VList [''7.1'']), Blueprint)) = Some (Inr [''packages''])
   \<and> map_option (map_sum id snd) (sub 3 RefA RefA (curl_only True (VSet [''7.1'']), Blueprint))
     = Some (Inl (AttributeError ''index''))"
  by code_simp

text \<open>
  C4, amended. For A loaded from the document with only curl 7.1 under apt, A - A
  returns, and its serialization has the one key packages, holding the manager apt with
  an empty mapping: curl is removed and no package remains.
\<close>

theorem sub_self_leaves_empty_manager:
  "map_option (map_sum id (\<lambda>r. snd (dumps (snd r))))
     (sub 3 RefA RefA (curl_only False (VList [''7.1'']), Blueprint))
   = Some (Inr (Blueprint\<lparr>key_packages :=
        Some \<lparr> defaulting = False, pkg_items = fmupd ''apt'' fmempty fmempty \<rparr>\<rparr>))"
  by code_simp

section \<open>The package walk\<close>

lemma recording_sel:
  "cb_before_sources recording = Some (emit EvBeforeSources)"
  "cb_source recording = Some (\<lambda>dirname filename. emit (EvSource dirname filename))"
  "cb_before_files recording = Some (emit EvBeforeFiles)"
  "cb_file recording = Some (\<lambda>pathname f. emit (EvFile pathname))"
  "cb_after_files recording = Some (emit EvAfterFiles)"
  "cb_before_packages recording = Some (\<lambda>m. emit (EvBeforePackages (mgr_name m)))"
  "cb_package recording = Some (\<lambda>m package version. emit (EvPackage (mgr_name m) package version))"
  "cb_after_packages recording = Some (\<lambda>m. emit (EvAfterPackages (mgr_name m)))"
  by (simp_all add: recording_def)

lemma package_loop_recording:
  assumes "at packages self h = (h, pk)"
  shows "package_loop self recording manager items ms (h, log) =
     ok (ms @ filter (\<lambda>p. p \<noteq> mgr_name manager \<and> p |\<in>| fmdom (pkg_items pk)) (map fst items),
         (h, log @ package_events (mgr_name manager) items))"
  using assms
proof (induction items arbitrary: ms log)
  case Nil
  then show ?case by (simp add: package_events_def)
next
  case (Cons it items)
  obtain p vs where it: "it = (p, vs)" by (cases it)
  have e: "call3 (cb_package recording) manager p = (\<lambda>v. emit (EvPackage (mgr_name manager) p v))"
    by (simp add: call3_def recording_sel fun_eq_iff)
  show ?case
    unfolding it package_loop.simps e for_each_emit
    using Cons.prems by (simp add: Cons.IH package_events_def)
qed

lemma walk_packages_recording:
  "walk_packages (Suc n) self recording (Some m) (h, log) =
     for_each (\<lambda>c. walk_packages n self recording (Some c)) (hosted h self m)
       (fst (at packages self h),
        log @ EvBeforePackages m # package_events m (manager_items h self m) @ [EvAfterPackages m])"
proof -
  obtain h1 pk where a: "at packages self h = (h1, pk)" by (cases "at packages self h")
  have a1: "at packages self h1 = (h1, pk)" using at_packages_idem [of self h] a by simp
  have pk: "pk = snd (packages (hget h self))" using at_packages_snd [of self h] a by simp
  show ?thesis
    by (simp add: walk_packages.simps(3) a call1_def recording_sel emit_def
        package_loop_recording [OF a1] hosted_def manager_items_def pk [symmetric] Let_def)
qed

text \<open>
  C6, as stated, fails: the versions of a package are visited in the order of their
  container, which no code sorts. The package curl of apt with the versions 7.2, 7.1:
\<close>

theorem walk_packages_versions_unsorted:
  "map_option (map_sum id snd)
     (walk_packages 2 RefA recording None ((curl_only False (VList [''7.2'', ''7.1'']), Blueprint), []))
   = Some (Inr [EvBeforePackages ''apt'', EvPackage ''apt'' ''curl'' ''7.2'',
                EvPackage ''apt'' ''curl'' ''7.1'', EvAfterPackages ''apt'',
                EvBeforePackages ''yum'', EvAfterPackages ''yum''])
   \<and> \<not> sorted [''7.2'', ''7.1'']"
  by code_simp

text \<open>
  C6, amended. The walk starts from the roots apt and yum, in this order. A visit of
  manager \<open>m\<close> calls before_packages, then the package callback for the packages in
  sorted name order, the versions of one package in the order of their container, then
  after_packages; only then it walks the managers that \<open>m\<close> hosts, in sorted order. So
  all callbacks of a visit come before every callback of the walks it recurses into.
\<close>

theorem walk_packages_order:
  "walk_packages (Suc (Suc n)) self recording None (h, log) =
     bnd (walk_packages (Suc n) self recording (Some ''apt'') (h, log))
       (walk_packages (Suc n) self recording (Some ''yum''))
   \<and> walk_packages (Suc n) self recording (Some m) (h, log) =
     for_each (\<lambda>c. walk_packages n self recording (Some c)) (hosted h self m)
       (fst (at packages self h),
        log @ EvBeforePackages m # package_events m (manager_items h self m) @ [EvAfterPackages m])
   \<and> sorted (map fst (manager_items h self m))
   \<and> distinct (map fst (manager_items h self m))"
  by (simp add: walk_packages.simps(2) walk_packages_recording manager_items_def
      sorted_items_sorted sorted_items_distinct)

section \<open>Termination of the package walk\<close>

lemma cyc_hosted:
  "hosted (cyclic, Blueprint) RefA ''apt'' = [''gem'']"
  "hosted (cyclic, Blueprint) RefA ''gem'' = [''apt'']"
  "fst (at packages RefA (cyclic, Blueprint)) = (cyclic, Blueprint)"
  by code_simp+

lemma cyclic_manager_diverges:
  "m = ''apt'' \<or> m = ''gem'' \<Longrightarrow>
   walk_packages n RefA recording (Some m) ((cyclic, Blueprint), log) = None"
proof (induction n arbitrary: m log)
  case 0
  then show ?case by (simp add: walk_packages.simps)
next
  case (Suc n)
  then show ?case
    by (auto simp: walk_packages_recording cyc_hosted)
qed

text \<open>
  C7, as stated, fails: the hierarchy read off \<open>packages\<close> can have a cycle, and the only
  guard of the recursion is \<open>managername != package\<close>. With apt listing gem and gem
  listing apt the walk never returns, whatever the depth allowed.
\<close>

theorem walk_packages_cycle_diverges: "\<forall>n. walk_packages n RefA recording None ((cyclic, Blueprint), []) = None"
proof
  fix n
  show "walk_packages n RefA recording None ((cyclic, Blueprint), []) = None"
    by (cases n) (simp_all add: cyclic_manager_diverges walk_packages.simps)
qed

lemma hosted_touched [simp]: "hosted (fst (at packages self h)) self m = hosted h self m"
  by (simp add: hosted_def manager_items_def)

lemma for_each_returns:
  assumes "\<And>c log. c \<in> set cs \<Longrightarrow> \<exists>log'. f c (h, log) = ok (h, log')"
  shows "\<exists>log'. for_each f cs (h, log) = ok (h, log')"
  using assms
proof (induction cs arbitrary: log)
  case Nil
  then show ?case by simp
next
  case (Cons c cs)
  from Cons.prems [of c log] obtain l1 where "f c (h, log) = ok (h, l1)" by auto
  moreover from Cons.IH [of l1] Cons.prems obtain l2 where "for_each f cs (h, l1) = ok (h, l2)"
    by (meson list.set_intros(2))
  ultimately show ?case by simp
qed

lemma walk_manager_returns:
  assumes rank: "\<And>m p. p \<in> set (hosted h self m) \<Longrightarrow> rank p < (rank m :: nat)"
    and fp: "fst (at packages self h) = h"
  shows "rank m < n \<Longrightarrow> \<exists>log'. walk_packages n self recording (Some m) (h, log) = ok (h, log')"
proof (induction n arbitrary: m log)
  case 0
  then show ?case by simp
next
  case (Suc n)
  have "\<exists>log'. for_each (\<lambda>c. walk_packages n self recording (Some c)) (hosted h self m) (h, l) = ok (h, log')" for l
  proof (rule for_each_returns)
    fix c l'
    assume "c \<in> set (hosted h self m)"
    then have "rank c < n" using rank [of c m] Suc.prems by simp
    then show "\<exists>log'. walk_packages n self recording (Some c) (h, l') = ok (h, log')"
      by (rule Suc.IH)
  qed
  then show ?case by (simp add: walk_packages_recording fp)
qed

lemma gems_hosted: "p \<in> set (hosted (gems, Blueprint) RefA m) \<Longrightarrow> m = ''apt'' \<and> p = ''gem''"
  by (auto simp: hosted_def manager_items_def gems_def Blueprint_def packages_def
      sorted_items_keys split: if_splits)

text \<open>
  C7, amended. The walk returns for every blueprint whose manager hierarchy is acyclic:
  when a rank decreases from every manager to each manager it hosts, the walk from the
  roots returns once the depth allowed exceeds the ranks of apt and yum by two.
\<close>

theorem walk_packages_returns_when_ranked:
  assumes "\<And>m p. p \<in> set (hosted h self m) \<Longrightarrow> rank p < (rank m :: nat)"
    and "rank ''apt'' + 1 < n" and "rank ''yum'' + 1 < n"
  shows "\<exists>log'. walk_packages n self recording None (h, log) = ok (fst (at packages self h), log')"
proof -
  let ?h = "fst (at packages self h)"
  obtain k where n: "n = Suc (Suc k)" using assms(2) by (cases n; cases "n - 1") auto
  have r: "\<And>m p. p \<in> set (hosted ?h self m) \<Longrightarrow> rank p < rank m" using assms(1) by simp
  have f: "fst (at packages self ?h) = ?h" by simp
  have w: "rank m < Suc k \<Longrightarrow> \<exists>log'. walk_packages (Suc k) self recording (Some m) (?h, l) = ok (?h, log')" for m l
    using walk_manager_returns [of ?h self rank m "Suc k" l, OF r f] by blast
  have first: "walk_packages (Suc k) self recording (Some m) (h, l) = walk_packages (Suc k) self recording (Some m) (?h, l)" for m l
    by (simp add: walk_packages_recording manager_items_def)
  from w [of "''apt''" log] assms(2) n obtain l1 where
    1: "walk_packages (Suc k) self recording (Some ''apt'') (?h, log) = ok (?h, l1)" by auto
  from w [of "''yum''" l1] assms(3) n obtain l2 where
    2: "walk_packages (Suc k) self recording (Some ''yum'') (?h, l1) = ok (?h, l2)" by auto
  show ?thesis unfolding n walk_packages.simps(2) using 1 2 first by simp
qed

theorem walk_packages_returns_when_ranked_witness:
  "\<exists>log'. walk_packages 3 RefA recording None ((gems, Blueprint), []) = ok ((gems, Blueprint), log')"
proof -
  have "fst (at packages RefA (gems, Blueprint)) = (gems, Blueprint)" by code_simp
  then show ?thesis
    using walk_packages_returns_when_ranked [of "(gems, Blueprint)" RefA "\<lambda>m. if m = ''apt'' then 1 else 0" 3 "[]"] gems_hosted
    by fastforce
qed

end
